theory Spec2Isabelle
  imports Complex_Main "HOL-Library.Multiset"
begin

section \<open>Data model of \<open>kernel_exp_family_impl::Base\<close>\<close>

text \<open>
  The development embeds \<open>src/shogun/distributions/kernel_exp_family/impl/Base.cpp\<close>.

  \<^item> \<open>float64_t\<close> is idealised as \<open>real\<close>: arithmetic is exact, and the one place where
    IEEE-754 leaves the reals (division by zero in \<open>objective\<close>) is written out with
    the datatype \<open>ieee_quotient\<close> below.
  \<^item> \<open>index_t\<close> (a 32-bit signed integer) is \<open>int\<close>; the code does no arithmetic on it
    that could wrap (loop counters stay below a column count).
  \<^item> A pointer \<open>float64_t*\<close> is a \<open>buffer\<close>: the address of the block it points to
    (storage identity, what \<open>==\<close> on pointers compares) together with the block's
    contents. Nothing in \<open>Base.cpp\<close> writes through \<open>m_lhs\<close> or \<open>m_rhs\<close>, so two
    handles with the same address never disagree on the contents.
\<close>

type_synonym addr = nat
type_synonym float64_t = real
type_synonym index_t = int

record buffer =
  base :: addr
  cells :: "float64_t list"

record SGMatrix =
  matrix :: buffer
  num_rows :: index_t
  num_cols :: index_t

record SGVector =
  vector :: buffer
  vlen :: index_t

text \<open>
  The constructors \<open>SGVector(len)\<close> and \<open>SGMatrix(rows, cols)\<close> live in headers that are
  not part of the sources at hand. What they deliver is a parameter of the model: an
  \<open>allocation\<close> names the address of the new block and the value each of its cells
  holds before the first write (zeros for a clearing allocator, anything otherwise).
\<close>

record allocation =
  new_base :: addr
  junk :: "nat \<Rightarrow> float64_t"

definition alloc :: "allocation \<Rightarrow> nat \<Rightarrow> buffer" where
  "alloc al n = \<lparr>base = new_base al, cells = map (junk al) [0..<n]\<rparr>"

definition SGVector_new :: "allocation \<Rightarrow> index_t \<Rightarrow> SGVector" where
  "SGVector_new al len = \<lparr>vector = alloc al (nat len), vlen = len\<rparr>"

definition SGMatrix_new :: "allocation \<Rightarrow> index_t \<Rightarrow> index_t \<Rightarrow> SGMatrix" where
  "SGMatrix_new al nrows ncols =
     \<lparr>matrix = alloc al (nat nrows * nat ncols), num_rows = nrows, num_cols = ncols\<rparr>"

definition SGVector_null :: SGVector where
  \<comment> \<open>the member \<open>m_alpha_beta\<close> as the constructor of \<open>Base\<close> leaves it, which does not
      assign it: default-constructed, without storage and of length 0\<close>
  "SGVector_null = \<lparr>vector = \<lparr>base = 0, cells = []\<rparr>, vlen = 0\<rparr>"

definition SGMatrix_of_vector :: "SGVector \<Rightarrow> SGMatrix" where
  \<comment> \<open>Modelled from the spec: the converting constructor \<open>SGMatrix(SGVector)\<close> is not in
      the sources; section 4.1 of the specification reads "vector = single-column matrix".\<close>
  "SGMatrix_of_vector x = \<lparr>matrix = vector x, num_rows = vlen x, num_cols = 1\<rparr>"

text \<open>
  \<open>kernel::Base\<close> is an abstract class outside the sources. The estimator only calls
  three of its virtual methods, each of which mutates the kernel object; the model takes
  the kernel state as a type parameter and the three methods as a table of functions.
  A kernel is handed matrices, never the estimator, so its methods act on the kernel
  state alone.
\<close>

record 'k kernel_vtable =
  set_lhs :: "SGMatrix \<Rightarrow> 'k \<Rightarrow> 'k"
  set_rhs :: "SGMatrix \<Rightarrow> 'k \<Rightarrow> 'k"
  precompute :: "'k \<Rightarrow> 'k"

record 'k Base =
  m_lhs :: SGMatrix
  m_rhs :: SGMatrix
  m_kernel :: 'k
  m_lambda :: float64_t
  m_alpha_beta :: SGVector

text \<open>
  The pure virtual methods of \<open>Base\<close> that subclasses supply. The per-point methods are
  called through \<open>(const Base*)this\<close>: they read the estimator and return a value, and
  \<open>build_system\<close> is taken the same way. A returned \<open>SGVector\<close> owns its storage.
\<close>

record 'k Base_hooks =
  build_system :: "'k Base \<Rightarrow> SGMatrix \<times> SGVector"
  log_pdf_at :: "'k Base \<Rightarrow> index_t \<Rightarrow> float64_t"
  grad_at :: "'k Base \<Rightarrow> index_t \<Rightarrow> SGVector"
  hessian_diag_at :: "'k Base \<Rightarrow> index_t \<Rightarrow> SGVector"


section \<open>Data store\<close>

definition get_num_dimensions :: "'k Base \<Rightarrow> index_t" where
  "get_num_dimensions e = num_rows (m_lhs e)"

definition get_num_lhs :: "'k Base \<Rightarrow> index_t" where
  "get_num_lhs e = num_cols (m_lhs e)"

definition get_num_rhs :: "'k Base \<Rightarrow> index_t" where
  "get_num_rhs e = num_cols (m_rhs e)"

definition set_test_data :: "'k kernel_vtable \<Rightarrow> SGMatrix \<Rightarrow> 'k Base \<Rightarrow> 'k Base" where
  "set_test_data K X e =
     e\<lparr>m_rhs := X, m_kernel := precompute K (set_rhs K X (m_kernel e))\<rparr>"

definition set_test_data_vec :: "'k kernel_vtable \<Rightarrow> SGVector \<Rightarrow> 'k Base \<Rightarrow> 'k Base" where
  "set_test_data_vec K x e = set_test_data K (SGMatrix_of_vector x) e"

definition reset_test_data :: "'k kernel_vtable \<Rightarrow> 'k Base \<Rightarrow> 'k Base" where
  "reset_test_data K e = set_test_data K (m_lhs e) e"

definition is_test_equals_train_data :: "'k Base \<Rightarrow> bool" where
  "is_test_equals_train_data e =
     (if base (matrix (m_lhs e)) \<noteq> base (matrix (m_rhs e)) then False
      else if num_rows (m_lhs e) \<noteq> num_rows (m_rhs e) then False
      else if num_cols (m_lhs e) \<noteq> num_cols (m_rhs e) then False
      else True)"

definition Base_ctor :: "'k kernel_vtable \<Rightarrow> SGMatrix \<Rightarrow> 'k \<Rightarrow> float64_t \<Rightarrow> 'k Base" where
  "Base_ctor K data kern lam =
     \<lparr>m_lhs = data, m_rhs = data,
      m_kernel = precompute K (set_rhs K data (set_lhs K data kern)),
      m_lambda = lam, m_alpha_beta = SGVector_null\<rparr>"

text \<open>A call that changes the test data, and a sequence of such calls.\<close>

datatype test_call = SetTestMatrix SGMatrix | SetTestVector SGVector | ResetTest

fun apply_test_call :: "'k kernel_vtable \<Rightarrow> test_call \<Rightarrow> 'k Base \<Rightarrow> 'k Base" where
  "apply_test_call K (SetTestMatrix X) e = set_test_data K X e"
| "apply_test_call K (SetTestVector x) e = set_test_data_vec K x e"
| "apply_test_call K ResetTest e = reset_test_data K e"

definition run_test_calls :: "'k kernel_vtable \<Rightarrow> test_call list \<Rightarrow> 'k Base \<Rightarrow> 'k Base" where
  "run_test_calls K cs e = fold (apply_test_call K) cs e"


text \<open>
  What the specification asks of the kernel gateway (sections 3 and 6): its state
  mirrors the current operands, and \<open>precompute\<close> recomputes the cache for them. So the
  state after \<open>set_rhs Y\<close> and \<open>precompute\<close> does not remember an earlier right operand
  or the cache computed for it.
\<close>

definition kernel_tracks_operands :: "'k kernel_vtable \<Rightarrow> bool" where
  "kernel_tracks_operands K \<longleftrightarrow>
     (\<forall>X Y k. precompute K (set_rhs K Y (precompute K (set_rhs K X k)))
                = precompute K (set_rhs K Y k))"


section \<open>Fitting\<close>

text \<open>
  \<open>Eigen::JacobiSVD\<close> is a third-party solver. The model takes
  \<open>JacobiSVD(A, ComputeThinU | ComputeThinV).solve(b)\<close> as the parameter \<open>svd_solve\<close>,
  which returns the entries of the solution. \<open>eigen_alpha_beta\<close> is a fixed-size view of
  the \<open>vlen b\<close> cells of the new \<open>m_alpha_beta\<close>; Eigen assigns to such a view only a
  vector of that very size and stops on its size assertion otherwise, which is the
  outcome \<open>None\<close>. The messages written to the log are not modelled.
\<close>

definition solve_and_store ::
  "(SGMatrix \<Rightarrow> SGVector \<Rightarrow> float64_t list) \<Rightarrow> allocation \<Rightarrow> SGMatrix \<Rightarrow> SGVector \<Rightarrow>
   'k Base \<Rightarrow> 'k Base option" where
  "solve_and_store svd_solve al A b e =
     (let alpha_beta = SGVector_new al (vlen b);
          x = svd_solve A b
      in if length x = length (cells (vector alpha_beta))
         then Some (e\<lparr>m_alpha_beta := alpha_beta\<lparr>vector := (vector alpha_beta)\<lparr>cells := x\<rparr>\<rparr>\<rparr>)
         else None)"

definition fit ::
  "(SGMatrix \<Rightarrow> SGVector \<Rightarrow> float64_t list) \<Rightarrow> 'k Base_hooks \<Rightarrow> allocation \<Rightarrow>
   'k Base \<Rightarrow> 'k Base option" where
  "fit svd_solve H al e =
     (let A_b = build_system H e
      in solve_and_store svd_solve al (fst A_b) (snd A_b) e)"


section \<open>Batch queries\<close>

text \<open>
  A loop \<open>for (auto i=0; i<N; ++i)\<close> under \<open>#pragma omp parallel for\<close> runs each index
  below \<open>N\<close> once, in an order the run-time chooses. The order in which the iterations
  take effect is the parameter \<open>sched\<close>; \<open>sequential N\<close> is the order of the loop without
  the pragma. Iterations are taken as atomic steps.
\<close>

definition omp_schedule :: "nat list \<Rightarrow> index_t \<Rightarrow> bool" where
  "omp_schedule sched N \<longleftrightarrow> mset sched = mset [0..<nat N]"

definition sequential :: "index_t \<Rightarrow> nat list" where
  "sequential N = [0..<nat N]"

definition SGVector_set :: "SGVector \<Rightarrow> nat \<Rightarrow> float64_t \<Rightarrow> SGVector" where
  \<comment> \<open>\<open>v[i] = x\<close>; every use below has \<open>i\<close> within the vector\<close>
  "SGVector_set v i x = v\<lparr>vector := (vector v)\<lparr>cells := (cells (vector v))[i := x]\<rparr>\<rparr>"

definition log_pdf_iteration :: "'k Base_hooks \<Rightarrow> 'k Base \<Rightarrow> nat \<Rightarrow> SGVector \<Rightarrow> SGVector" where
  "log_pdf_iteration H e i result = SGVector_set result i (log_pdf_at H e (int i))"

definition log_pdf :: "nat list \<Rightarrow> 'k Base_hooks \<Rightarrow> allocation \<Rightarrow> 'k Base \<Rightarrow> SGVector" where
  "log_pdf sched H al e =
     (let N_test = get_num_rhs e;
          result = SGVector_new al N_test
      in fold (log_pdf_iteration H e) sched result)"

definition get_column_vector :: "SGMatrix \<Rightarrow> index_t \<Rightarrow> float64_t list" where
  \<comment> \<open>Modelled from the spec: \<open>SGMatrix::get_column_vector\<close> is not in the sources; by
      section 3 of the specification columns are points and rows are dimensions, so
      column \<open>col\<close> starts \<open>col * num_rows\<close> cells into the block. The result is the
      memory from that cell on.\<close>
  "get_column_vector M col = drop (nat (col * num_rows M)) (cells (matrix M))"

definition memcpy :: "float64_t list \<Rightarrow> float64_t list \<Rightarrow> nat \<Rightarrow> float64_t list" where
  \<comment> \<open>\<open>memcpy(dest, src, n)\<close> with \<open>n\<close> counted in cells: the memory at \<open>dest\<close> afterwards\<close>
  "memcpy dest src n = take n src @ drop n dest"

text \<open>
  One iteration of the loop in \<open>grad()\<close>. The call is
  \<open>memcpy(grad.vector, result.get_column_vector(i), D*sizeof(float64_t))\<close>: the
  destination is the vector the hook returned, the source is column \<open>i\<close> of \<open>result\<close>.
  The iteration yields the temporary as it is left and the result matrix.
\<close>

definition grad_iteration ::
  "'k Base_hooks \<Rightarrow> 'k Base \<Rightarrow> index_t \<Rightarrow> nat \<Rightarrow> SGMatrix \<Rightarrow> SGVector \<times> SGMatrix" where
  "grad_iteration H e D i result =
     (let grad = grad_at H e (int i);
          written = memcpy (cells (vector grad)) (get_column_vector result (int i)) (nat D)
      in (grad\<lparr>vector := (vector grad)\<lparr>cells := written\<rparr>\<rparr>, result))"

definition grad :: "nat list \<Rightarrow> 'k Base_hooks \<Rightarrow> allocation \<Rightarrow> 'k Base \<Rightarrow> SGMatrix" where
  "grad sched H al e =
     (let N_test = get_num_rhs e;
          D = get_num_dimensions e;
          result = SGMatrix_new al D N_test
      in fold (\<lambda>i result. snd (grad_iteration H e D i result)) sched result)"

text \<open>
  \<open>objective / N\<close> divides a \<open>float64_t\<close> by the column count converted to
  \<open>float64_t\<close>. IEEE-754 division by zero does not trap: it yields a NaN or an infinity.
\<close>

datatype ieee_quotient = Finite real | PosInf | NegInf | NaN

definition float64_div :: "float64_t \<Rightarrow> float64_t \<Rightarrow> ieee_quotient" where
  "float64_div x y =
     (if y \<noteq> 0 then Finite (x / y)
      else if x = 0 then NaN
      else if 0 < x then PosInf else NegInf)"

definition Map_VectorXd :: "SGVector \<Rightarrow> index_t \<Rightarrow> float64_t list" where
  \<comment> \<open>\<open>Map<VectorXd>(v.vector, n)\<close>: the first \<open>n\<close> cells of the storage of \<open>v\<close>\<close>
  "Map_VectorXd v n = take (nat n) (cells (vector v))"

definition squaredNorm :: "float64_t list \<Rightarrow> float64_t" where
  "squaredNorm xs = (\<Sum>x\<leftarrow>xs. x * x)"

definition objective_iteration ::
  "'k Base_hooks \<Rightarrow> 'k Base \<Rightarrow> index_t \<Rightarrow> nat \<Rightarrow> float64_t \<Rightarrow> float64_t" where
  "objective_iteration H e D i objective =
     (let gradient = grad_at H e (int i);
          eigen_gradient = Map_VectorXd gradient D;
          objective = objective + 0.5 * squaredNorm eigen_gradient;
          hessian_diag = hessian_diag_at H e (int i);
          eigen_hessian_diag = Map_VectorXd hessian_diag D
      in objective + sum_list eigen_hessian_diag)"

text \<open>
  \<open>reduction (+:objective)\<close>: every thread of the team adds the terms of its own
  iterations to a private copy that starts at 0, and the private copies are added to
  the original value, here 0.0, when the loop ends. \<open>team\<close> lists, thread by thread,
  the iterations the thread runs; one thread running \<open>sequential N\<close> is the loop
  without the pragma.
\<close>

definition omp_team :: "nat list list \<Rightarrow> index_t \<Rightarrow> bool" where
  "omp_team team N \<longleftrightarrow> mset (concat team) = mset [0..<nat N]"

definition objective :: "nat list list \<Rightarrow> 'k Base_hooks \<Rightarrow> 'k Base \<Rightarrow> ieee_quotient" where
  "objective team H e =
     (let N = get_num_rhs e;
          D = get_num_dimensions e;
          partial_sums = map (\<lambda>iterations. fold (objective_iteration H e D) iterations 0) team;
          objective = fold (+) partial_sums 0
      in float64_div objective (of_int N))"


section \<open>A concrete kernel and data for evaluation\<close>

text \<open>
  A kernel whose state records its two operands and the pair of operands its cache was
  last computed for; used only to evaluate the operations on concrete inputs.
\<close>

record kernel_state =
  k_lhs :: "SGMatrix option"
  k_rhs :: "SGMatrix option"
  k_cache :: "(SGMatrix option \<times> SGMatrix option) option"

definition recording_kernel :: "kernel_state kernel_vtable" where
  "recording_kernel =
     \<lparr>set_lhs = (\<lambda>X k. k\<lparr>k_lhs := Some X\<rparr>),
      set_rhs = (\<lambda>X k. k\<lparr>k_rhs := Some X\<rparr>),
      precompute = (\<lambda>k. k\<lparr>k_cache := Some (k_lhs k, k_rhs k)\<rparr>)\<rparr>"

definition blank_kernel :: kernel_state where
  "blank_kernel = \<lparr>k_lhs = None, k_rhs = None, k_cache = None\<rparr>"

definition train_2x3 :: SGMatrix where
  \<comment> \<open>three points in two dimensions, stored column by column at address 1\<close>
  "train_2x3 = \<lparr>matrix = \<lparr>base = 1, cells = [0, 1, 2, 3, 4, 5]\<rparr>, num_rows = 2, num_cols = 3\<rparr>"

definition copy_2x3 :: SGMatrix where
  \<comment> \<open>the same numbers in a separately allocated block at address 2\<close>
  "copy_2x3 = \<lparr>matrix = \<lparr>base = 2, cells = [0, 1, 2, 3, 4, 5]\<rparr>, num_rows = 2, num_cols = 3\<rparr>"


definition empty_2x0 :: SGMatrix where
  \<comment> \<open>a test set without points\<close>
  "empty_2x0 = \<lparr>matrix = \<lparr>base = 3, cells = []\<rparr>, num_rows = 2, num_cols = 0\<rparr>"

definition zeroed :: "addr \<Rightarrow> allocation" where
  \<comment> \<open>a clearing allocator handing out the block at the given address\<close>
  "zeroed a = \<lparr>new_base = a, junk = (\<lambda>_. 0)\<rparr>"

definition stale :: "addr \<Rightarrow> allocation" where
  \<comment> \<open>an allocator handing out a block that still holds earlier values\<close>
  "stale a = \<lparr>new_base = a, junk = (\<lambda>i. 7 + real i)\<rparr>"

definition point_hooks :: "kernel_state Base_hooks" where
  \<comment> \<open>a toy model: the log-density at a test point is the sum of its coordinates, the
      gradient is the point itself, the Hessian diagonal is constantly -1, and the
      system to solve is the 1-by-1 system \<open>2 x = 4\<close>\<close>
  "point_hooks =
     \<lparr>build_system = (\<lambda>e.
        (\<lparr>matrix = \<lparr>base = 20, cells = [2]\<rparr>, num_rows = 1, num_cols = 1\<rparr>,
         \<lparr>vector = \<lparr>base = 21, cells = [4]\<rparr>, vlen = 1\<rparr>)),
      log_pdf_at = (\<lambda>e i.
        sum_list (take (nat (get_num_dimensions e)) (get_column_vector (m_rhs e) i))),
      grad_at = (\<lambda>e i.
        \<lparr>vector = \<lparr>base = 30 + nat i,
                   cells = take (nat (get_num_dimensions e)) (get_column_vector (m_rhs e) i)\<rparr>,
         vlen = get_num_dimensions e\<rparr>),
      hessian_diag_at = (\<lambda>e i.
        \<lparr>vector = \<lparr>base = 40 + nat i, cells = replicate (nat (get_num_dimensions e)) (- 1)\<rparr>,
         vlen = get_num_dimensions e\<rparr>)\<rparr>"

definition scalar_solve :: "SGMatrix \<Rightarrow> SGVector \<Rightarrow> float64_t list" where
  \<comment> \<open>the solution of a 1-by-1 system with a non-zero coefficient\<close>
  "scalar_solve A b = [hd (cells (vector b)) / hd (cells (matrix A))]"

definition unfit_2x3 :: "kernel_state Base" where
  "unfit_2x3 = Base_ctor recording_kernel train_2x3 blank_kernel 0.1"

definition fitted_2x3 :: "kernel_state Base" where
  "fitted_2x3 = unfit_2x3\<lparr>m_alpha_beta := \<lparr>vector = \<lparr>base = 8, cells = [2]\<rparr>, vlen = 1\<rparr>\<rparr>"


section \<open>Loops as folds\<close>

lemma fold_list_update:
  "fold (\<lambda>i xs. xs[i := f i]) sched xs =
     map (\<lambda>j. if j \<in> set sched then f j else xs ! j) [0..<length xs]"
proof (induction sched arbitrary: xs)
  case Nil
  show ?case by (simp add: map_nth)
next
  case (Cons a sched)
  show ?case
    by (auto simp: Cons.IH nth_list_update)
qed

lemma fold_log_pdf_iteration:
  "fold (log_pdf_iteration H e) sched r =
     r\<lparr>vector := (vector r)\<lparr>cells := fold (\<lambda>i xs. xs[i := log_pdf_at H e (int i)]) sched (cells (vector r))\<rparr>\<rparr>"
  by (induction sched arbitrary: r) (simp_all add: log_pdf_iteration_def SGVector_set_def)

lemma log_pdf_cells:
  assumes "omp_schedule sched (get_num_rhs e)"
  shows "log_pdf sched H al e =
     \<lparr>vector = \<lparr>base = new_base al,
                cells = map (\<lambda>i. log_pdf_at H e (int i)) [0..<nat (get_num_rhs e)]\<rparr>,
      vlen = get_num_rhs e\<rparr>"
proof -
  from assms have "set sched = set [0..<nat (get_num_rhs e)]"
    unfolding omp_schedule_def by (rule mset_eq_setD)
  then have "fold (\<lambda>i xs. xs[i := log_pdf_at H e (int i)]) sched
          (map (junk al) [0..<nat (get_num_rhs e)])
        = map (\<lambda>i. log_pdf_at H e (int i)) [0..<nat (get_num_rhs e)]"
    by (simp add: fold_list_update)
  then show ?thesis
    by (simp add: log_pdf_def Let_def fold_log_pdf_iteration SGVector_new_def alloc_def)
qed

lemma fold_grad_iteration:
  "fold (\<lambda>i result. snd (grad_iteration H e D i result)) sched r = r"
  by (induction sched) (simp_all add: grad_iteration_def Let_def)

lemma grad_unwritten: "grad sched H al e = SGMatrix_new al (get_num_dimensions e) (get_num_rhs e)"
  by (simp add: grad_def fold_grad_iteration)

lemma fold_plus: "fold (+) xs (a::real) = a + sum_list xs"
  by (induction xs arbitrary: a) simp_all

lemma fold_objective_iteration:
  "fold (objective_iteration H e D) is a =
     a + (\<Sum>i\<leftarrow>is. 0.5 * squaredNorm (Map_VectorXd (grad_at H e (int i)) D)
                    + sum_list (Map_VectorXd (hessian_diag_at H e (int i)) D))"
  by (induction "is" arbitrary: a) (simp_all add: objective_iteration_def Let_def)

lemma sum_list_map_permuted:
  fixes f :: "nat \<Rightarrow> real"
  assumes "mset xs = mset ys"
  shows "sum_list (map f xs) = sum_list (map f ys)"
proof -
  have "sum_mset (mset (map f xs)) = sum_mset (mset (map f ys))"
    using assms by simp
  then show ?thesis by (simp only: sum_mset_sum_list)
qed

lemma sum_list_concat_map:
  fixes f :: "nat \<Rightarrow> real"
  shows "(\<Sum>is\<leftarrow>team. sum_list (map f is)) = sum_list (map f (concat team))"
  by (induction team) simp_all

lemma objective_sum:
  assumes "omp_team team (get_num_rhs e)"
  shows "objective team H e =
     float64_div (\<Sum>i = 0..<nat (get_num_rhs e).
                    0.5 * squaredNorm (Map_VectorXd (grad_at H e (int i)) (get_num_dimensions e))
                    + sum_list (Map_VectorXd (hessian_diag_at H e (int i)) (get_num_dimensions e)))
       (of_int (get_num_rhs e))"
proof -
  let ?t = "\<lambda>i. 0.5 * squaredNorm (Map_VectorXd (grad_at H e (int i)) (get_num_dimensions e))
                    + sum_list (Map_VectorXd (hessian_diag_at H e (int i)) (get_num_dimensions e))"
  have "fold (+) (map (\<lambda>iterations. fold (objective_iteration H e (get_num_dimensions e)) iterations 0) team) 0
      = sum_list (map (\<lambda>is. sum_list (map ?t is)) team)"
    by (simp add: fold_plus fold_objective_iteration)
  also have "\<dots> = sum_list (map ?t (concat team))"
    by (rule sum_list_concat_map)
  also have "\<dots> = sum_list (map ?t [0..<nat (get_num_rhs e)])"
    using assms unfolding omp_team_def by (rule sum_list_map_permuted)
  also have "\<dots> = sum ?t {0..<nat (get_num_rhs e)}"
    by (simp add: interv_sum_list_conv_sum_set_nat)
  finally show ?thesis by (simp add: objective_def Let_def)
qed


section \<open>The fixtures evaluated\<close>

lemma fit_fixture: "fit scalar_solve point_hooks (zeroed 8) unfit_2x3 = Some fitted_2x3"
  by (simp add: fit_def solve_and_store_def point_hooks_def scalar_solve_def zeroed_def
      SGVector_new_def alloc_def fitted_2x3_def Let_def)

lemma fitted_2x3_sizes: "get_num_rhs fitted_2x3 = 3" "get_num_dimensions fitted_2x3 = 2"
  by (simp_all add: get_num_rhs_def get_num_dimensions_def fitted_2x3_def unfit_2x3_def
      Base_ctor_def train_2x3_def)

lemma fitted_2x3_log_pdf_at:
  "map (\<lambda>i. log_pdf_at point_hooks fitted_2x3 (int i)) [0..<3] = [1, 5, 9]"
  by (simp add: point_hooks_def get_num_dimensions_def get_column_vector_def fitted_2x3_def
      unfit_2x3_def Base_ctor_def train_2x3_def upt_rec)

lemma fitted_2x3_terms:
  "cells (vector (grad_at point_hooks fitted_2x3 (int i))) = take 2 (drop (2 * i) [0, 1, 2, 3, 4, 5])"
  "cells (vector (hessian_diag_at point_hooks fitted_2x3 (int i))) = [- 1, - 1]"
  by (simp_all add: point_hooks_def get_num_dimensions_def get_column_vector_def fitted_2x3_def
      unfit_2x3_def Base_ctor_def train_2x3_def numeral_2_eq_2 nat_mult_distrib mult.commute)

lemma fitted_2x3_grad:
  "grad sched point_hooks al fitted_2x3 = SGMatrix_new al 2 3"
  by (simp add: grad_unwritten fitted_2x3_sizes)

section \<open>Train/test aliasing\<close>

lemma is_test_equals_train_data_iff:
  "is_test_equals_train_data e \<longleftrightarrow>
     base (matrix (m_rhs e)) = base (matrix (m_lhs e)) \<and>
     num_rows (m_rhs e) = num_rows (m_lhs e) \<and>
     num_cols (m_rhs e) = num_cols (m_lhs e)"
  unfolding is_test_equals_train_data_def by auto

text \<open>
  Claim C4. \<open>is_test_equals_train_data\<close> is true exactly when the test matrix has the
  same storage address as the training matrix and the same numbers of rows and of
  columns. It is true right after construction and right after \<open>reset_test_data\<close>. After
  \<open>set_test_data X\<close> with a matrix \<open>X\<close> whose storage is not that of the training matrix
  it is false, whatever the shape and the contents of \<open>X\<close>, equal numbers included.
\<close>

theorem is_test_equals_train_data_storage_identity:
  "(is_test_equals_train_data e \<longleftrightarrow>
      base (matrix (m_rhs e)) = base (matrix (m_lhs e)) \<and>
      num_rows (m_rhs e) = num_rows (m_lhs e) \<and>
      num_cols (m_rhs e) = num_cols (m_lhs e)) \<and>
   is_test_equals_train_data (Base_ctor K data kern lam) \<and>
   is_test_equals_train_data (reset_test_data K e) \<and>
   (base (matrix X) \<noteq> base (matrix (m_lhs e)) \<longrightarrow>
      \<not> is_test_equals_train_data (set_test_data K X e))"
  by (simp add: is_test_equals_train_data_iff Base_ctor_def reset_test_data_def
      set_test_data_def)

theorem is_test_equals_train_data_storage_identity_witness:
  "cells (matrix copy_2x3) = cells (matrix train_2x3) \<and>
   num_rows copy_2x3 = num_rows train_2x3 \<and> num_cols copy_2x3 = num_cols train_2x3 \<and>
   base (matrix copy_2x3) \<noteq> base (matrix train_2x3) \<and>
   is_test_equals_train_data (Base_ctor recording_kernel train_2x3 blank_kernel 0.1) \<and>
   \<not> is_test_equals_train_data
       (set_test_data recording_kernel copy_2x3
          (Base_ctor recording_kernel train_2x3 blank_kernel 0.1)) \<and>
   is_test_equals_train_data
       (reset_test_data recording_kernel
          (set_test_data recording_kernel copy_2x3
             (Base_ctor recording_kernel train_2x3 blank_kernel 0.1)))"
proof -
  let ?e = "Base_ctor recording_kernel train_2x3 blank_kernel 0.1"
  have fresh: "base (matrix copy_2x3) \<noteq> base (matrix (m_lhs ?e))"
    by (simp add: copy_2x3_def train_2x3_def Base_ctor_def)
  have shape: "cells (matrix copy_2x3) = cells (matrix train_2x3) \<and>
      num_rows copy_2x3 = num_rows train_2x3 \<and> num_cols copy_2x3 = num_cols train_2x3 \<and>
      base (matrix copy_2x3) \<noteq> base (matrix train_2x3)"
    by (simp add: copy_2x3_def train_2x3_def)
  from is_test_equals_train_data_storage_identity
         [of ?e recording_kernel train_2x3 blank_kernel "0.1" copy_2x3]
       is_test_equals_train_data_storage_identity
         [of "set_test_data recording_kernel copy_2x3 ?e" recording_kernel train_2x3
             blank_kernel "0.1" copy_2x3]
       fresh shape
  show ?thesis by blast
qed


section \<open>What changing the test data leaves alone\<close>

lemma set_test_data_frame:
  "m_lhs (set_test_data K X e) = m_lhs e \<and>
   m_lambda (set_test_data K X e) = m_lambda e \<and>
   m_alpha_beta (set_test_data K X e) = m_alpha_beta e"
  by (simp add: set_test_data_def)

lemma apply_test_call_frame:
  "m_lhs (apply_test_call K c e) = m_lhs e \<and>
   m_lambda (apply_test_call K c e) = m_lambda e \<and>
   m_alpha_beta (apply_test_call K c e) = m_alpha_beta e"
  by (cases c) (simp_all add: set_test_data_frame set_test_data_vec_def reset_test_data_def)

lemma run_test_calls_frame:
  "m_lhs (run_test_calls K cs e) = m_lhs e \<and>
   m_lambda (run_test_calls K cs e) = m_lambda e \<and>
   m_alpha_beta (run_test_calls K cs e) = m_alpha_beta e"
  unfolding run_test_calls_def
  by (induction cs arbitrary: e) (simp_all add: apply_test_call_frame)

text \<open>
  Claim C9. \<open>set_test_data X\<close> assigns the test matrix and the kernel and nothing else:
  the training matrix (handle and contents), \<open>lambda\<close> and the stored coefficient vector
  are the same before and after, and the same holds after any sequence of
  \<open>set_test_data\<close> (matrix or vector form) and \<open>reset_test_data\<close> calls. The new test
  matrix is \<open>X\<close> and the new kernel state is the old one after \<open>set_rhs X\<close> and
  \<open>precompute\<close>.
\<close>

theorem set_test_data_only_touches_rhs_and_kernel:
  "set_test_data K X e =
     \<lparr>m_lhs = m_lhs e, m_rhs = X,
      m_kernel = precompute K (set_rhs K X (m_kernel e)),
      m_lambda = m_lambda e, m_alpha_beta = m_alpha_beta e\<rparr> \<and>
   m_lhs (run_test_calls K cs e) = m_lhs e \<and>
   m_lambda (run_test_calls K cs e) = m_lambda e \<and>
   m_alpha_beta (run_test_calls K cs e) = m_alpha_beta e"
  by (simp add: run_test_calls_frame set_test_data_def)


section \<open>Batch log-density\<close>

text \<open>
  Claim C6. Whatever order the iterations of the parallel loop take effect in,
  \<open>log_pdf()\<close> returns a vector whose length is the number of test points and whose
  entries are, in the order of the test points, the values of the per-point hook
  \<open>log_pdf(i)\<close>: entry \<open>i\<close> is \<open>log_pdf(i)\<close> for every \<open>0 \<le> i < N_test\<close>. Nothing of the
  initial contents of the result's storage remains.
\<close>

theorem log_pdf_batch_is_per_point:
  assumes "omp_schedule sched (get_num_rhs e)"
  shows "vlen (log_pdf sched H al e) = get_num_rhs e \<and>
         cells (vector (log_pdf sched H al e)) =
           map (\<lambda>i. log_pdf_at H e (int i)) [0..<nat (get_num_rhs e)] \<and>
         (\<forall>i. 0 \<le> i \<and> i < get_num_rhs e \<longrightarrow>
              cells (vector (log_pdf sched H al e)) ! nat i = log_pdf_at H e i)"
  by (simp add: log_pdf_cells [OF assms])

theorem log_pdf_batch_is_per_point_witness:
  "omp_schedule [2, 0, 1] (get_num_rhs fitted_2x3) \<and>
   fit scalar_solve point_hooks (zeroed 8) unfit_2x3 = Some fitted_2x3 \<and>
   vlen (log_pdf [2, 0, 1] point_hooks (stale 9) fitted_2x3) = 3 \<and>
   cells (vector (log_pdf [2, 0, 1] point_hooks (stale 9) fitted_2x3)) = [1, 5, 9] \<and>
   map (\<lambda>i. log_pdf_at point_hooks fitted_2x3 (int i)) [0..<3] = [1, 5, 9]"
proof -
  have sched: "omp_schedule [2, 0, 1] (get_num_rhs fitted_2x3)"
    by (simp add: omp_schedule_def fitted_2x3_sizes upt_rec)
  from log_pdf_batch_is_per_point [OF sched, of point_hooks "stale 9"]
  have "vlen (log_pdf [2, 0, 1] point_hooks (stale 9) fitted_2x3) = 3"
    and "cells (vector (log_pdf [2, 0, 1] point_hooks (stale 9) fitted_2x3)) = [1, 5, 9]"
    by (simp_all add: fitted_2x3_sizes fitted_2x3_log_pdf_at)
  with sched fit_fixture fitted_2x3_log_pdf_at show ?thesis by simp
qed


section \<open>Batch gradient\<close>

text \<open>
  The loop of \<open>grad()\<close> never writes to \<open>result\<close>: every iteration copies \<open>D\<close> cells out
  of \<open>result\<close> into the temporary that the hook returned. The matrix returned is the
  one allocated, with the contents the allocation gave it.
\<close>

lemma grad_iteration_overwrites_temporary:
  "cells (vector (fst (grad_iteration H e D i result)))
     = take (nat D) (get_column_vector result (int i)) @ drop (nat D) (cells (vector (grad_at H e (int i))))"
  by (simp add: grad_iteration_def memcpy_def Let_def)

text \<open>
  Claim C1 says that column \<open>i\<close> of the matrix returned by \<open>grad()\<close> equals the vector
  returned by the hook \<open>grad(i)\<close>. The code does not achieve this, because the first two
  arguments of \<open>memcpy\<close> are in the wrong order. On the fitted estimator with the three
  training points (0,1), (2,3), (4,5) as test points, where the hook returns the point
  itself, \<open>grad()\<close> returns a 2-by-3 matrix whose column 1 is (0,0) when the storage was
  cleared, while \<open>grad(1)\<close> is (2,3); when the storage holds 7, 8, ... the matrix
  returned holds just these numbers.
\<close>

theorem grad_column_is_not_hook_gradient:
  "fit scalar_solve point_hooks (zeroed 8) unfit_2x3 = Some fitted_2x3 \<and>
   num_rows (grad (sequential 3) point_hooks (zeroed 9) fitted_2x3) = 2 \<and>
   num_cols (grad (sequential 3) point_hooks (zeroed 9) fitted_2x3) = 3 \<and>
   take 2 (get_column_vector (grad (sequential 3) point_hooks (zeroed 9) fitted_2x3) 1) = [0, 0] \<and>
   cells (vector (grad_at point_hooks fitted_2x3 1)) = [2, 3] \<and>
   take 2 (get_column_vector (grad (sequential 3) point_hooks (zeroed 9) fitted_2x3) 1)
     \<noteq> cells (vector (grad_at point_hooks fitted_2x3 1)) \<and>
   cells (matrix (grad (sequential 3) point_hooks (stale 9) fitted_2x3)) = [7, 8, 9, 10, 11, 12]"
proof -
  have hook: "cells (vector (grad_at point_hooks fitted_2x3 1)) = [2, 3]"
    using fitted_2x3_terms(1) [of 1] by simp
  have shape: "num_rows (grad (sequential 3) point_hooks (zeroed 9) fitted_2x3) = 2"
      "num_cols (grad (sequential 3) point_hooks (zeroed 9) fitted_2x3) = 3"
    by (simp_all add: fitted_2x3_grad SGMatrix_new_def)
  have column:
      "take 2 (get_column_vector (grad (sequential 3) point_hooks (zeroed 9) fitted_2x3) 1) = [0, 0]"
    by (simp add: fitted_2x3_grad SGMatrix_new_def alloc_def zeroed_def get_column_vector_def upt_rec)
  have leftover:
      "cells (matrix (grad (sequential 3) point_hooks (stale 9) fitted_2x3)) = [7, 8, 9, 10, 11, 12]"
    by (simp add: fitted_2x3_grad SGMatrix_new_def alloc_def stale_def upt_rec)
  from column hook have differ:
      "take 2 (get_column_vector (grad (sequential 3) point_hooks (zeroed 9) fitted_2x3) 1)
         \<noteq> cells (vector (grad_at point_hooks fitted_2x3 1))"
    by simp
  from fit_fixture shape column hook differ leftover show ?thesis by blast
qed


section \<open>Objective\<close>

text \<open>
  Claim C3. When there is at least one test point and the hooks return vectors of \<open>D\<close>
  entries, \<open>objective()\<close> returns the sum over the test points \<open>i\<close> of
  \<open>0.5 * squaredNorm(grad(i)) + sum(hessian_diag(i))\<close> divided by the number of test
  points, however the iterations are distributed over the threads of the reduction.
  The numbers are reals, so the statement is the claim up to the rounding of
  floating-point addition.
\<close>

theorem objective_is_mean_of_per_point_terms:
  assumes "omp_team team (get_num_rhs e)"
    and "1 \<le> get_num_rhs e"
    and "\<forall>i<nat (get_num_rhs e).
           length (cells (vector (grad_at H e (int i)))) = nat (get_num_dimensions e) \<and>
           length (cells (vector (hessian_diag_at H e (int i)))) = nat (get_num_dimensions e)"
  shows "objective team H e =
     Finite ((\<Sum>i = 0..<nat (get_num_rhs e).
                0.5 * squaredNorm (cells (vector (grad_at H e (int i))))
                + sum_list (cells (vector (hessian_diag_at H e (int i)))))
             / of_int (get_num_rhs e))"
proof -
  have "(\<Sum>i = 0..<nat (get_num_rhs e).
            0.5 * squaredNorm (Map_VectorXd (grad_at H e (int i)) (get_num_dimensions e))
            + sum_list (Map_VectorXd (hessian_diag_at H e (int i)) (get_num_dimensions e)))
      = (\<Sum>i = 0..<nat (get_num_rhs e).
            0.5 * squaredNorm (cells (vector (grad_at H e (int i))))
            + sum_list (cells (vector (hessian_diag_at H e (int i)))))"
    using assms(3) by (intro sum.cong refl) (simp add: Map_VectorXd_def)
  moreover have "real_of_int (get_num_rhs e) \<noteq> 0"
    using assms(2) by simp
  ultimately show ?thesis
    by (simp add: objective_sum [OF assms(1)] float64_div_def)
qed

theorem objective_is_mean_of_per_point_terms_witness:
  "omp_team [[2], [0, 1]] (get_num_rhs fitted_2x3) \<and> 1 \<le> get_num_rhs fitted_2x3 \<and>
   objective [[2], [0, 1]] point_hooks fitted_2x3 = Finite (43 / 6)"
proof -
  have team: "omp_team [[2], [0, 1]] (get_num_rhs fitted_2x3)"
    by (simp add: omp_team_def fitted_2x3_sizes upt_rec)
  have pos: "1 \<le> get_num_rhs fitted_2x3"
    by (simp add: fitted_2x3_sizes)
  have len: "\<forall>i<nat (get_num_rhs fitted_2x3).
      length (cells (vector (grad_at point_hooks fitted_2x3 (int i))))
        = nat (get_num_dimensions fitted_2x3) \<and>
      length (cells (vector (hessian_diag_at point_hooks fitted_2x3 (int i))))
        = nat (get_num_dimensions fitted_2x3)"
    by (auto simp: fitted_2x3_terms fitted_2x3_sizes)
  from objective_is_mean_of_per_point_terms [OF team pos len]
  have "objective [[2], [0, 1]] point_hooks fitted_2x3 = Finite (43 / 6)"
    by (simp add: fitted_2x3_terms fitted_2x3_sizes squaredNorm_def numeral_3_eq_3)
  with team pos show ?thesis by simp
qed

text \<open>
  Claim C10. \<open>objective()\<close> reaches the division by the number of test points without
  any check: when the test set is empty no iteration runs, the accumulated sum is 0 and
  the division is 0.0 / 0, whose result is not a number; no error is raised.
\<close>

theorem objective_of_empty_test_set_is_NaN:
  assumes "omp_team team (get_num_rhs e)"
    and "get_num_rhs e = 0"
  shows "objective team H e = NaN"
  by (simp add: objective_sum [OF assms(1)] assms(2) float64_div_def)

theorem objective_of_empty_test_set_is_NaN_witness:
  "omp_team [[], []] (get_num_rhs (set_test_data recording_kernel empty_2x0 fitted_2x3)) \<and>
   get_num_rhs (set_test_data recording_kernel empty_2x0 fitted_2x3) = 0 \<and>
   objective [[], []] point_hooks (set_test_data recording_kernel empty_2x0 fitted_2x3) = NaN"
proof -
  let ?e = "set_test_data recording_kernel empty_2x0 fitted_2x3"
  have none: "get_num_rhs ?e = 0"
    by (simp add: get_num_rhs_def set_test_data_def empty_2x0_def)
  have team: "omp_team [[], []] (get_num_rhs ?e)"
    by (simp add: omp_team_def none)
  from objective_of_empty_test_set_is_NaN [OF team none, of point_hooks] team none
  show ?thesis by blast
qed


section \<open>Order of the iterations\<close>

text \<open>
  In \<open>log_pdf()\<close> iteration \<open>i\<close> writes cell \<open>i\<close> of the result and nothing else, so the
  order of the iterations does not show in the result, and neither do the initial
  contents of the result's storage: two evaluations, one in any order and one in the
  order of the sequential loop, each with an allocation of its own, return the same
  cells.
\<close>

lemma log_pdf_order_independent:
  assumes "omp_schedule sched (get_num_rhs e)"
  shows "log_pdf sched H al e = log_pdf (sequential (get_num_rhs e)) H al e \<and>
         vlen (log_pdf sched H al e) = vlen (log_pdf (sequential (get_num_rhs e)) H al' e) \<and>
         cells (vector (log_pdf sched H al e))
           = cells (vector (log_pdf (sequential (get_num_rhs e)) H al' e))"
proof -
  have seq: "omp_schedule (sequential (get_num_rhs e)) (get_num_rhs e)"
    by (simp add: omp_schedule_def sequential_def)
  show ?thesis
    by (simp add: log_pdf_cells [OF assms] log_pdf_cells [OF seq])
qed

text \<open>
  In \<open>grad()\<close> no iteration writes to the result, in whatever order the iterations run:
  the result is the block as the allocation delivered it, and the hooks do not show in
  it at all.
\<close>

lemma grad_ignores_order_and_hooks:
  "grad sched H al e = grad sched' H' al e \<and>
   cells (matrix (grad sched H al e))
     = map (junk al) [0..<nat (get_num_dimensions e) * nat (get_num_rhs e)]"
  by (simp add: grad_unwritten SGMatrix_new_def alloc_def)



section \<open>Resetting the test data\<close>

lemma apply_test_call_kernel:
  "\<exists>Y. m_rhs (apply_test_call K c e) = Y \<and>
       m_kernel (apply_test_call K c e) = precompute K (set_rhs K Y (m_kernel e))"
  by (cases c) (simp_all add: set_test_data_def set_test_data_vec_def reset_test_data_def)

lemma kernel_after_test_calls:
  assumes "kernel_tracks_operands K"
    and "m_kernel e = precompute K (set_rhs K X k)"
  shows "\<exists>Y. m_kernel (run_test_calls K cs e) = precompute K (set_rhs K Y k)"
  using assms(2)
proof (induction cs arbitrary: e X)
  case Nil
  then show ?case by (auto simp: run_test_calls_def)
next
  case (Cons c cs)
  obtain Y where "m_kernel (apply_test_call K c e) = precompute K (set_rhs K Y (m_kernel e))"
    using apply_test_call_kernel by blast
  with Cons.prems assms(1) have "m_kernel (apply_test_call K c e) = precompute K (set_rhs K Y k)"
    by (simp add: kernel_tracks_operands_def)
  from Cons.IH [OF this] show ?case by (simp add: run_test_calls_def)
qed

lemma fit_frame:
  assumes "fit svd_solve H al e = Some e'"
  shows "e' = e\<lparr>m_alpha_beta := m_alpha_beta e'\<rparr>"
  using assms by (auto simp: fit_def solve_and_store_def Let_def split: if_splits)

lemma reset_after_calls_is_identity:
  assumes K: "kernel_tracks_operands K"
    and fitted: "fit svd_solve H al (Base_ctor K data kern lam) = Some e"
  shows "reset_test_data K (run_test_calls K cs e) = e"
proof -
  from fit_frame [OF fitted] have e: "e = (Base_ctor K data kern lam)\<lparr>m_alpha_beta := m_alpha_beta e\<rparr>" .
  have lhs: "m_lhs e = data" and rhs: "m_rhs e = data"
    and ker: "m_kernel e = precompute K (set_rhs K data (set_lhs K data kern))"
    by (subst e, simp add: Base_ctor_def)+
  obtain Y where Y: "m_kernel (run_test_calls K cs e) = precompute K (set_rhs K Y (set_lhs K data kern))"
    using kernel_after_test_calls [OF K ker] by blast
  have "m_kernel (reset_test_data K (run_test_calls K cs e)) = m_kernel e"
    using K by (simp add: reset_test_data_def set_test_data_def Y ker run_test_calls_frame lhs
        kernel_tracks_operands_def)
  moreover have "m_rhs (reset_test_data K (run_test_calls K cs e)) = m_rhs e"
    by (simp add: reset_test_data_def set_test_data_def run_test_calls_frame lhs rhs)
  moreover have "m_lhs (reset_test_data K (run_test_calls K cs e)) = m_lhs e"
      "m_lambda (reset_test_data K (run_test_calls K cs e)) = m_lambda e"
      "m_alpha_beta (reset_test_data K (run_test_calls K cs e)) = m_alpha_beta e"
    by (simp_all add: reset_test_data_def set_test_data_frame run_test_calls_frame)
  ultimately show ?thesis by (intro Base.equality) simp_all
qed

text \<open>
  Claim C7. \<open>reset_test_data()\<close> is \<open>set_test_data(m_lhs)\<close>: afterwards the test matrix is
  the training matrix, which is unchanged. Let an estimator be constructed and fitted,
  and let its test data then be changed by any sequence of \<open>set_test_data\<close> and
  \<open>reset_test_data\<close> calls. If the kernel keeps to the gateway contract
  \<open>kernel_tracks_operands\<close>, a further \<open>reset_test_data()\<close> brings the estimator back to
  the state it had right after \<open>fit()\<close>, when no test data had been set, and \<open>log_pdf()\<close>
  returns what it returns there.
\<close>

theorem reset_test_data_restores_train_as_test:
  "reset_test_data K e = set_test_data K (m_lhs e) e \<and>
   m_rhs (reset_test_data K e) = m_lhs e \<and>
   m_lhs (reset_test_data K e) = m_lhs e \<and>
   (kernel_tracks_operands K \<and> fit svd_solve H al (Base_ctor K data kern lam) = Some e1 \<longrightarrow>
      reset_test_data K (run_test_calls K cs e1) = e1 \<and>
      log_pdf sched H al' (reset_test_data K (run_test_calls K cs e1)) = log_pdf sched H al' e1)"
proof -
  have "reset_test_data K (run_test_calls K cs e1) = e1"
    if "kernel_tracks_operands K" "fit svd_solve H al (Base_ctor K data kern lam) = Some e1"
    using reset_after_calls_is_identity [OF that] .
  then show ?thesis
    by (auto simp: reset_test_data_def set_test_data_def)
qed

lemma recording_kernel_tracks_operands: "kernel_tracks_operands recording_kernel"
  by (simp add: kernel_tracks_operands_def recording_kernel_def)

theorem reset_test_data_restores_train_as_test_witness:
  "kernel_tracks_operands recording_kernel \<and>
   fit scalar_solve point_hooks (zeroed 8) (Base_ctor recording_kernel train_2x3 blank_kernel 0.1)
     = Some fitted_2x3 \<and>
   m_rhs (set_test_data recording_kernel copy_2x3 fitted_2x3) = copy_2x3 \<and>
   m_rhs (reset_test_data recording_kernel (set_test_data recording_kernel copy_2x3 fitted_2x3))
     = train_2x3 \<and>
   reset_test_data recording_kernel (set_test_data recording_kernel copy_2x3 fitted_2x3)
     = fitted_2x3 \<and>
   log_pdf [0, 1, 2] point_hooks (zeroed 9)
       (reset_test_data recording_kernel (set_test_data recording_kernel copy_2x3 fitted_2x3))
     = log_pdf [0, 1, 2] point_hooks (zeroed 9) fitted_2x3"
proof -
  have fitted: "fit scalar_solve point_hooks (zeroed 8)
      (Base_ctor recording_kernel train_2x3 blank_kernel 0.1) = Some fitted_2x3"
    using fit_fixture by (simp add: unfit_2x3_def)
  have calls: "run_test_calls recording_kernel [SetTestMatrix copy_2x3] fitted_2x3
      = set_test_data recording_kernel copy_2x3 fitted_2x3"
    by (simp add: run_test_calls_def)
  have rhs: "m_rhs (set_test_data recording_kernel copy_2x3 fitted_2x3) = copy_2x3"
    by (simp add: set_test_data_def)
  have lhs: "m_lhs (set_test_data recording_kernel copy_2x3 fitted_2x3) = train_2x3"
    by (simp add: set_test_data_def fitted_2x3_def unfit_2x3_def Base_ctor_def)
  let ?e = "set_test_data recording_kernel copy_2x3 fitted_2x3"
  note inst = reset_test_data_restores_train_as_test
         [of recording_kernel ?e scalar_solve point_hooks "zeroed 8" train_2x3 blank_kernel
             "0.1" fitted_2x3 "[SetTestMatrix copy_2x3]" "[0, 1, 2]" "zeroed 9",
          unfolded calls lhs]
  from inst have restored: "m_rhs (reset_test_data recording_kernel ?e) = train_2x3"
    by blast
  from inst recording_kernel_tracks_operands fitted
  have same: "reset_test_data recording_kernel ?e = fitted_2x3"
    and same_log_pdf: "log_pdf [0, 1, 2] point_hooks (zeroed 9) (reset_test_data recording_kernel ?e)
      = log_pdf [0, 1, 2] point_hooks (zeroed 9) fitted_2x3"
    by blast+
  from recording_kernel_tracks_operands fitted rhs restored same same_log_pdf
  show ?thesis by blast
qed


section \<open>What fitting stores\<close>

text \<open>
  \<open>fit()\<close> hands the system of the assembler hook to the solver as it is and keeps the
  solver's answer as it is: when the answer has as many entries as \<open>b\<close>, the call
  returns, \<open>m_alpha_beta\<close> is a new vector of the length of \<open>b\<close> holding that answer, and
  no other member changes. Whether the answer solves \<open>A x = b\<close> in the least-squares
  sense is a property of \<open>Eigen::JacobiSVD\<close>, which is not part of these sources and
  is not modelled; nothing is proved about it here.
\<close>

lemma solve_and_store_Some:
  assumes "length (svd_solve A b) = nat (vlen b)"
  shows "solve_and_store svd_solve al A b e =
     Some (e\<lparr>m_alpha_beta := \<lparr>vector = \<lparr>base = new_base al, cells = svd_solve A b\<rparr>, vlen = vlen b\<rparr>\<rparr>)"
  using assms by (simp add: solve_and_store_def SGVector_new_def alloc_def Let_def)

lemma fit_stores_solver_output:
  assumes "build_system H e = (A, b)"
    and "length (svd_solve A b) = nat (vlen b)"
  shows "fit svd_solve H al e =
     Some (e\<lparr>m_alpha_beta := \<lparr>vector = \<lparr>base = new_base al, cells = svd_solve A b\<rparr>, vlen = vlen b\<rparr>\<rparr>)"
  using assms by (simp add: fit_def solve_and_store_Some)


section \<open>Queries before the first fit\<close>

lemma unfit_2x3_sizes: "get_num_rhs unfit_2x3 = 3" "get_num_dimensions unfit_2x3 = 2"
  by (simp_all add: get_num_rhs_def get_num_dimensions_def unfit_2x3_def Base_ctor_def
      train_2x3_def)

lemma point_hooks_ignore_alpha_beta:
  "log_pdf_at point_hooks (e\<lparr>m_alpha_beta := v\<rparr>) i = log_pdf_at point_hooks e i"
  "grad_at point_hooks (e\<lparr>m_alpha_beta := v\<rparr>) i = grad_at point_hooks e i"
  "hessian_diag_at point_hooks (e\<lparr>m_alpha_beta := v\<rparr>) i = hessian_diag_at point_hooks e i"
  by (simp_all add: point_hooks_def get_num_dimensions_def)

lemma unfit_2x3_hooks:
  "log_pdf_at point_hooks unfit_2x3 i = log_pdf_at point_hooks fitted_2x3 i"
  "grad_at point_hooks unfit_2x3 i = grad_at point_hooks fitted_2x3 i"
  "hessian_diag_at point_hooks unfit_2x3 i = hessian_diag_at point_hooks fitted_2x3 i"
  by (simp_all add: fitted_2x3_def point_hooks_ignore_alpha_beta)

text \<open>
  Claim C2 says that on an estimator on which \<open>fit()\<close> was never called the queries
  \<open>log_pdf()\<close>, \<open>grad()\<close> and \<open>objective()\<close> fail with an assertion or contract failure
  instead of returning a value. \<open>Base.cpp\<close> has no such check and no member that records
  whether \<open>fit()\<close> ran. On the estimator that was just constructed from three training
  points, whose coefficient vector is still the empty default, \<open>log_pdf()\<close> returns
  (1, 5, 9), \<open>grad()\<close> returns a 2-by-3 matrix and \<open>objective()\<close> returns 43/6.
\<close>

theorem queries_before_fit_return_values:
  "unfit_2x3 = Base_ctor recording_kernel train_2x3 blank_kernel 0.1 \<and>
   m_alpha_beta unfit_2x3 = SGVector_null \<and>
   cells (vector (log_pdf [0, 1, 2] point_hooks (zeroed 9) unfit_2x3)) = [1, 5, 9] \<and>
   num_rows (grad [0, 1, 2] point_hooks (zeroed 9) unfit_2x3) = 2 \<and>
   num_cols (grad [0, 1, 2] point_hooks (zeroed 9) unfit_2x3) = 3 \<and>
   objective [[0, 1, 2]] point_hooks unfit_2x3 = Finite (43 / 6)"
proof -
  have never_fitted: "m_alpha_beta unfit_2x3 = SGVector_null"
    by (simp add: unfit_2x3_def Base_ctor_def)
  have sched: "omp_schedule [0, 1, 2] (get_num_rhs unfit_2x3)"
    by (simp add: omp_schedule_def unfit_2x3_sizes upt_rec)
  have "cells (vector (log_pdf [0, 1, 2] point_hooks (zeroed 9) unfit_2x3))
      = map (\<lambda>i. log_pdf_at point_hooks fitted_2x3 (int i)) [0..<3]"
    by (subst log_pdf_cells [OF sched]) (simp add: unfit_2x3_sizes unfit_2x3_hooks)
  then have vals: "cells (vector (log_pdf [0, 1, 2] point_hooks (zeroed 9) unfit_2x3)) = [1, 5, 9]"
    by (simp only: fitted_2x3_log_pdf_at)
  have shape: "num_rows (grad [0, 1, 2] point_hooks (zeroed 9) unfit_2x3) = 2"
      "num_cols (grad [0, 1, 2] point_hooks (zeroed 9) unfit_2x3) = 3"
    by (simp_all only: grad_unwritten unfit_2x3_sizes SGMatrix_new_def SGMatrix.simps)
  have team: "omp_team [[0, 1, 2]] (get_num_rhs unfit_2x3)"
    by (simp add: omp_team_def unfit_2x3_sizes upt_rec)
  have mean: "objective [[0, 1, 2]] point_hooks unfit_2x3 = Finite (43 / 6)"
    by (subst objective_sum [OF team])
      (simp add: unfit_2x3_sizes unfit_2x3_hooks fitted_2x3_terms
        Map_VectorXd_def squaredNorm_def float64_div_def numeral_3_eq_3)
  from never_fitted vals shape mean show ?thesis
    by (simp add: unfit_2x3_def)
qed

text \<open>
  Claim C2 as amended. For an estimator that was constructed and has since seen only
  \<open>set_test_data\<close> and \<open>reset_test_data\<close> calls, the coefficient vector is still as
  the constructor left it, and the queries are not guarded by the base class: \<open>log_pdf()\<close> returns the
  vector of the values of the hook \<open>log_pdf(i)\<close>, \<open>grad()\<close> returns a matrix of \<open>D\<close> rows
  and \<open>N_test\<close> columns, and \<open>objective()\<close> returns the accumulated sum of the hook terms
  divided by \<open>N_test\<close>, as they do on every other state. A check for a missing fit can
  only come from the hooks.
\<close>

theorem queries_before_fit_are_not_guarded:
  assumes "e = run_test_calls K cs (Base_ctor K data kern lam)"
    and "omp_schedule sched (get_num_rhs e)"
    and "omp_team team (get_num_rhs e)"
  shows "m_alpha_beta e = m_alpha_beta (Base_ctor K data kern lam) \<and>
         vlen (log_pdf sched H al e) = get_num_rhs e \<and>
         cells (vector (log_pdf sched H al e))
           = map (\<lambda>i. log_pdf_at H e (int i)) [0..<nat (get_num_rhs e)] \<and>
         num_rows (grad sched H al e) = get_num_dimensions e \<and>
         num_cols (grad sched H al e) = get_num_rhs e \<and>
         objective team H e =
           float64_div
             (\<Sum>i = 0..<nat (get_num_rhs e).
                0.5 * squaredNorm (Map_VectorXd (grad_at H e (int i)) (get_num_dimensions e))
                + sum_list (Map_VectorXd (hessian_diag_at H e (int i)) (get_num_dimensions e)))
             (of_int (get_num_rhs e))"
proof -
  have "m_alpha_beta e = m_alpha_beta (Base_ctor K data kern lam)"
    by (simp add: assms(1) run_test_calls_frame)
  then show ?thesis
    by (simp add: log_pdf_cells [OF assms(2)] grad_unwritten SGMatrix_new_def
        objective_sum [OF assms(3)])
qed

theorem queries_before_fit_are_not_guarded_witness:
  "omp_schedule [1, 0, 2] 3 \<and> omp_team [[1], [0, 2]] 3 \<and>
   get_num_rhs (run_test_calls recording_kernel [SetTestMatrix copy_2x3] unfit_2x3) = 3 \<and>
   m_alpha_beta (run_test_calls recording_kernel [SetTestMatrix copy_2x3] unfit_2x3) = SGVector_null \<and>
   vlen (log_pdf [1, 0, 2] point_hooks (stale 9)
          (run_test_calls recording_kernel [SetTestMatrix copy_2x3] unfit_2x3)) = 3 \<and>
   cells (vector (log_pdf [1, 0, 2] point_hooks (stale 9)
          (run_test_calls recording_kernel [SetTestMatrix copy_2x3] unfit_2x3))) = [1, 5, 9]"
proof -
  let ?e = "run_test_calls recording_kernel [SetTestMatrix copy_2x3] unfit_2x3"
  have e: "?e = run_test_calls recording_kernel [SetTestMatrix copy_2x3]
      (Base_ctor recording_kernel train_2x3 blank_kernel 0.1)"
    by (simp add: unfit_2x3_def)
  have n: "get_num_rhs ?e = 3"
    by (simp add: run_test_calls_def set_test_data_def get_num_rhs_def copy_2x3_def)
  have sched: "omp_schedule [1, 0, 2] 3"
    by (simp add: omp_schedule_def upt_rec)
  have team: "omp_team [[1], [0, 2]] 3"
    by (simp add: omp_team_def upt_rec)
  have hooks: "map (\<lambda>i. log_pdf_at point_hooks ?e (int i)) [0..<3] = [1, 5, 9]"
    by (simp add: run_test_calls_def set_test_data_def point_hooks_def get_num_dimensions_def
        get_column_vector_def unfit_2x3_def Base_ctor_def train_2x3_def copy_2x3_def upt_rec)
  from queries_before_fit_are_not_guarded
         [OF e sched [folded n] team [folded n], of point_hooks "stale 9"]
  have "m_alpha_beta ?e = m_alpha_beta (Base_ctor recording_kernel train_2x3 blank_kernel 0.1)"
    and "vlen (log_pdf [1, 0, 2] point_hooks (stale 9) ?e) = 3"
    and "cells (vector (log_pdf [1, 0, 2] point_hooks (stale 9) ?e)) = [1, 5, 9]"
    unfolding n using hooks by simp_all
  then have "m_alpha_beta ?e = SGVector_null"
    and "vlen (log_pdf [1, 0, 2] point_hooks (stale 9) ?e) = 3"
    and "cells (vector (log_pdf [1, 0, 2] point_hooks (stale 9) ?e)) = [1, 5, 9]"
    by (simp_all add: Base_ctor_def)
  with sched team n show ?thesis by blast
qed

end
